theory Spec2Isabelle
  imports Main "HOL-Library.Word" "HOL-Library.Char_ord" "HOL-Library.List_Lexorder"
begin

section \<open>The ltc app-runner command factory\<close>

text \<open>
  A shallow embedding of \<^verbatim>\<open>package command_factory\<close> (the app-runner command factory of
  the Lattice command-line client): the port resolver, the route and environment parsers,
  the convergence poller and the create and scale flows built from them.
\<close>

subsection \<open>Go library functions used by the code\<close>

text \<open>
  \<^verbatim>\<open>strings.Split(s, sep)\<close> for a separator of one byte, which is how every call of the
  file uses it: the pieces of \<open>s\<close> between the separators, \<open>n + 1\<close> pieces for \<open>n\<close>
  separators, so the empty string splits into one empty piece.
\<close>

fun Split :: "char \<Rightarrow> string \<Rightarrow> string list" where
  "Split sep [] = [[]]"
| "Split sep (c # cs) =
     (let r = Split sep cs in if c = sep then [] # r else (c # hd r) # tl r)"

text \<open>\<^verbatim>\<open>strings.Join(a, sep)\<close>.\<close>

fun Join :: "string list \<Rightarrow> string \<Rightarrow> string" where
  "Join [] sep = []"
| "Join [a] sep = a"
| "Join (a # b # bs) sep = a @ sep @ Join (b # bs) sep"

text \<open>\<^verbatim>\<open>strings.HasPrefix(s, prefix)\<close>.\<close>

definition HasPrefix :: "string \<Rightarrow> string \<Rightarrow> bool" where
  "HasPrefix s pre = (take (length pre) s = pre)"

text \<open>
  \<^verbatim>\<open>strconv.Atoi\<close>: an optional sign, then one or more decimal digits and nothing
  else; the value must fit Go's \<^verbatim>\<open>int\<close>, taken as 64 bits wide. \<open>None\<close> is the
  non-nil error.
\<close>

definition digitVal :: "char \<Rightarrow> nat option" where
  "digitVal c = map_of
     [(CHR ''0'', 0), (CHR ''1'', 1), (CHR ''2'', 2), (CHR ''3'', 3), (CHR ''4'', 4),
      (CHR ''5'', 5), (CHR ''6'', 6), (CHR ''7'', 7), (CHR ''8'', 8), (CHR ''9'', 9)] c"

fun parseDigits :: "string \<Rightarrow> nat \<Rightarrow> nat option" where
  "parseDigits [] acc = Some acc"
| "parseDigits (c # cs) acc =
     (case digitVal c of None \<Rightarrow> None | Some d \<Rightarrow> parseDigits cs (10 * acc + d))"

definition ParseUint :: "string \<Rightarrow> nat option" where
  "ParseUint s = (if s = [] then None else parseDigits s 0)"

definition Atoi :: "string \<Rightarrow> int option" where
  "Atoi s =
     (case s of
        [] \<Rightarrow> None
      | c # cs \<Rightarrow>
          (if c = CHR ''-'' then
             (case ParseUint cs of
                None \<Rightarrow> None
              | Some un \<Rightarrow> if un > 2 ^ 63 then None else Some (- int un))
           else
             (case ParseUint (if c = CHR ''+'' then cs else s) of
                None \<Rightarrow> None
              | Some un \<Rightarrow> if un \<ge> 2 ^ 63 then None else Some (int un))))"

text \<open>\<^verbatim>\<open>strconv.Itoa\<close>, and \<^verbatim>\<open>%d\<close> of \<^verbatim>\<open>fmt.Sprintf\<close>.\<close>

fun showNat :: "nat \<Rightarrow> string" where
  "showNat n =
     (if n < 10 then [''0123456789'' ! n]
      else showNat (n div 10) @ [''0123456789'' ! (n mod 10)])"

definition Itoa :: "int \<Rightarrow> string" where
  "Itoa i = (if i < 0 then CHR ''-'' # showNat (nat (- i)) else showNat (nat i))"

text \<open>
  \<^verbatim>\<open>sort.Strings\<close> orders strings bytewise, a proper prefix first: the lexicographic
  order on lists over the order of characters by their code. Equal
  strings cannot be told apart, so the sorted sequence is the one \<^const>\<open>sort\<close> gives.
\<close>

definition sort_Strings :: "string list \<Rightarrow> string list" where
  "sort_Strings xs = sort xs"

subsection \<open>Data model\<close>

type_synonym uint16 = "16 word"

text \<open>
  \<^verbatim>\<open>docker_app_runner.PortConfig\<close>. A slice is a list; the nil slice and the empty slice
  are both \<open>[]\<close>. The zero value \<^verbatim>\<open>PortConfig{}\<close> is \<open>zeroPortConfig\<close>.
\<close>

record PortConfig =
  Monitored :: uint16
  Exposed :: "uint16 list"

definition zeroPortConfig :: PortConfig where
  "zeroPortConfig = \<lparr>Monitored = 0, Exposed = []\<rparr>"

text \<open>
  Modelled from the spec: \<^verbatim>\<open>PortConfig.IsEmpty\<close> belongs to package docker\_app\_runner,
  which is not among the source files. The spec's resolution policy reads it as
  "metadata declares no ports": no exposed port.
\<close>

definition IsEmpty :: "PortConfig \<Rightarrow> bool" where
  "IsEmpty pc = (Exposed pc = [])"

text \<open>The fields of \<^verbatim>\<open>docker_metadata_fetcher.ImageMetadata\<close> that the code reads.\<close>

record ImageMetadata =
  WorkingDir :: string
  Ports :: PortConfig
  StartCommand :: "string list"

record RouteOverride =
  HostnamePrefix :: string
  Port :: uint16

definition InvalidPortErrorMessage :: string where
  "InvalidPortErrorMessage =
     ''Invalid port specified. Ports must be a comma-delimited list of integers between 0-65535.''"

definition MalformedRouteErrorMessage :: string where
  "MalformedRouteErrorMessage = ''Malformed route. Routes must be of the format route:port''"

definition MustSetMonitoredPortErrorMessage :: string where
  "MustSetMonitoredPortErrorMessage =
     ''Must set monitored-port when specifying multiple exposed ports unless --no-monitor is set.''"

subsection \<open>The collaborators and the world they act on\<close>

text \<open>
  \<^verbatim>\<open>docker_app_runner.CreateDockerAppParams\<close>. Three fields share their Go name with a
  field of \<open>ImageMetadata\<close> and carry the prefix \<open>App\<close> here, as does \<open>Name\<close>. A Go
  map is a partial function.
\<close>

record CreateDockerAppParams =
  AppName :: string
  DockerImagePath :: string
  AppStartCommand :: string
  AppArgs :: "string list"
  EnvironmentVariables :: "string \<rightharpoonup> string"
  Privileged :: bool
  Monitor :: bool
  Instances :: int
  CPUWeight :: nat
  MemoryMB :: int
  DiskMB :: int
  AppPorts :: PortConfig
  AppWorkingDir :: string
  RouteOverrides :: "RouteOverride list"

text \<open>
  Modelled from the spec: package exit\_codes is not among the source files; the code
  names one of its constants.
\<close>

datatype exit_code = PlacementError

datatype tail_event = OutputTailedLogs string | StopOutputting

text \<open>
  Everything the commands change outside their own variables: what the terminal UI has
  written, the exit codes handed to the exit handler, and the calls received by the
  metadata fetcher, the cluster and the log outputter, each in the order it happened.
\<close>

record world =
  said :: "string list"
  exits :: "exit_code list"
  fetched :: "string list"
  created :: "CreateDockerAppParams list"
  scaled :: "(string \<times> int) list"
  infoQueries :: nat
  tailed :: "tail_event list"

text \<open>
  The cluster's side of \<^verbatim>\<open>docker_app_runner.AppRunner\<close>: the error of a create or scale
  request (\<open>None\<close> is nil), and what the cluster answers to the \<open>n\<close>-th
  \<^verbatim>\<open>RunningAppInstancesInfo\<close> query about an application (running instances and the
  placement-error flag; the code drops the third result).
\<close>

record AppRunner =
  CreateDockerApp :: "CreateDockerAppParams \<Rightarrow> string option"
  ScaleApp :: "string \<Rightarrow> int \<Rightarrow> string option"
  RunningAppInstancesInfo :: "string \<Rightarrow> nat \<Rightarrow> int \<times> bool"

text \<open>
  The factory. \<open>FetchMetadata\<close> is its \<^verbatim>\<open>dockerMetadataFetcher\<close> (\<open>Inl\<close> the error text);
  \<open>timeout\<close> is a \<^verbatim>\<open>time.Duration\<close>, a number of nanoseconds. \<open>Green\<close> and \<open>Red\<close> stand
  for the two functions of package terminal/colors, which is not among the source files.
  The UI, the clock and the exit handler act on the \<open>world\<close> and on the time passed
  along with it.
\<close>

record AppRunnerCommandFactory =
  appRunner :: AppRunner
  FetchMetadata :: "string \<Rightarrow> string + ImageMetadata"
  timeout :: int
  domain :: string
  env :: "string list"
  Green :: "string \<Rightarrow> string"
  Red :: "string \<Rightarrow> string"

text \<open>The terminal UI (\<^verbatim>\<open>terminalUI\<close>): every method ends in one write.\<close>

definition Say :: "string \<Rightarrow> world \<Rightarrow> world" where
  "Say message w = w\<lparr>said := said w @ [message]\<rparr>"

definition SayLine :: "string \<Rightarrow> world \<Rightarrow> world" where
  "SayLine message w = Say (message @ ''\<newline>'') w"

definition IncorrectUsage :: "string \<Rightarrow> world \<Rightarrow> world" where
  "IncorrectUsage message w =
     (if length message > 0 then Say (''Incorrect Usage: '' @ message) w
      else Say ''Incorrect Usage'' w)"

definition NewLine :: "world \<Rightarrow> world" where
  "NewLine w = Say ''\<newline>'' w"

subsection \<open>Port configuration\<close>

text \<open>The conversion loop of \<open>getPortConfigFromArgs\<close>; \<open>None\<close> is its error return.\<close>

fun convertPorts :: "string list \<Rightarrow> uint16 list \<Rightarrow> uint16 list option" where
  "convertPorts [] convertedPorts = Some convertedPorts"
| "convertPorts (p # ps) convertedPorts =
     (case Atoi p of
        None \<Rightarrow> None
      | Some intPort \<Rightarrow>
          if intPort > 65535 then None
          else convertPorts ps (convertedPorts @ [word_of_int intPort]))"

text \<open>
  The result is Go's pair of a \<open>PortConfig\<close> and an error (\<open>None\<close> is nil). The receiver
  is used for its UI only. In the last branch \<open>convertedPorts ! 0\<close> is read when
  \<open>portStrings\<close> has one element, and then \<open>convertedPorts\<close> has one too.
\<close>

definition getPortConfigFromArgs ::
  "string \<Rightarrow> int \<Rightarrow> bool \<Rightarrow> ImageMetadata \<Rightarrow> world \<Rightarrow> (PortConfig \<times> string option) \<times> world"
where
  "getPortConfigFromArgs portsFlag monitoredPortFlag noMonitorFlag imageMetadata w =
     (if portsFlag = [] \<and> \<not> IsEmpty (Ports imageMetadata) then
        let portStrs = map (\<lambda>port. Itoa (uint port)) (Exposed (Ports imageMetadata))
        in ((Ports imageMetadata, None),
            Say (''No port specified, using exposed ports from the image metadata.\<newline>''
                 @ [CHR 0x09] @ ''Exposed Ports: '' @ Join portStrs '', '' @ ''\<newline>'') w)
      else if portsFlag = [] \<and> IsEmpty (Ports imageMetadata) \<and> noMonitorFlag then
        ((\<lparr>Monitored = 0, Exposed = [8080]\<rparr>, None), w)
      else if portsFlag = [] \<and> IsEmpty (Ports imageMetadata) then
        ((\<lparr>Monitored = 8080, Exposed = [8080]\<rparr>, None),
         Say (''No port specified, image metadata did not contain exposed ports. ''
              @ ''Defaulting to 8080.\<newline>'') w)
      else
        let portStrings = Split CHR '','' portsFlag in
        if length portStrings > 1 \<and> monitoredPortFlag = 0 \<and> \<not> noMonitorFlag then
          ((zeroPortConfig, Some MustSetMonitoredPortErrorMessage), w)
        else
          (case convertPorts (sort_Strings portStrings) [] of
             None \<Rightarrow> ((zeroPortConfig, Some InvalidPortErrorMessage), w)
           | Some convertedPorts \<Rightarrow>
               let monitoredPort =
                     (if length portStrings > 1 then word_of_int monitoredPortFlag
                      else convertedPorts ! 0)
               in ((\<lparr>Monitored = monitoredPort, Exposed = convertedPorts\<rparr>, None), w)))"

subsection \<open>Route overrides and the environment\<close>

text \<open>
  The loop of \<open>parseRouteOverrides\<close> over the comma-separated segments. The error return
  hands back the nil list. \<open>routeArr ! 0\<close> always exists; \<open>routeArr ! 1\<close> is read only
  after the length check. The list stays nil exactly as long as it is empty, since
  \<^verbatim>\<open>append\<close> never returns nil for a new element.
\<close>

fun parseRoutes :: "string list \<Rightarrow> RouteOverride list \<Rightarrow> RouteOverride list \<times> string option" where
  "parseRoutes [] routeOverrides = (routeOverrides, None)"
| "parseRoutes (route # rest) routeOverrides =
     (if route = [] then parseRoutes rest routeOverrides
      else
        let routeArr = Split CHR '':'' route in
        (case Atoi (routeArr ! 0) of
           None \<Rightarrow> ([], Some MalformedRouteErrorMessage)
         | Some maybePort \<Rightarrow>
             if length routeArr < 2 then ([], Some MalformedRouteErrorMessage)
             else
               let port = word_of_int maybePort;
                   hostnamePrefix = routeArr ! 1
               in parseRoutes rest
                    (routeOverrides @ [\<lparr>HostnamePrefix = hostnamePrefix, Port = port\<rparr>])))"

definition parseRouteOverrides :: "string \<Rightarrow> RouteOverride list \<times> string option" where
  "parseRouteOverrides routes = parseRoutes (Split CHR '','' routes) []"

definition parseEnvVarPair :: "string \<Rightarrow> string \<times> string" where
  "parseEnvVarPair envVarPair =
     (let s = Split CHR ''='' envVarPair
      in if length s > 1 then (s ! 0, s ! 1) else (s ! 0, []))"

fun grabVar :: "string list \<Rightarrow> string \<Rightarrow> string" where
  "grabVar [] name = []"
| "grabVar (envVarPair # rest) name =
     (if HasPrefix envVarPair name then snd (parseEnvVarPair envVarPair)
      else grabVar rest name)"

definition grabVarFromEnv :: "AppRunnerCommandFactory \<Rightarrow> string \<Rightarrow> string" where
  "grabVarFromEnv factory name = grabVar (env factory) name"

fun buildEnv ::
  "AppRunnerCommandFactory \<Rightarrow> string list \<Rightarrow> (string \<rightharpoonup> string) \<Rightarrow> (string \<rightharpoonup> string)"
where
  "buildEnv factory [] environment = environment"
| "buildEnv factory (envVarPair # rest) environment =
     (case parseEnvVarPair envVarPair of
        (name, value) \<Rightarrow>
          let value = (if value = [] then grabVarFromEnv factory name else value)
          in buildEnv factory rest (environment(name \<mapsto> value)))"

definition buildEnvironment :: "AppRunnerCommandFactory \<Rightarrow> string list \<Rightarrow> (string \<rightharpoonup> string)" where
  "buildEnvironment factory envVars = buildEnv factory envVars Map.empty"

definition urlForApp :: "AppRunnerCommandFactory \<Rightarrow> string \<Rightarrow> string" where
  "urlForApp factory name = ''http://'' @ name @ ''.'' @ domain factory @ ''\<newline>''"

subsection \<open>The convergence poller\<close>

text \<open>
  \<^verbatim>\<open>time.Second\<close> in nanoseconds. Time is the injected clock's: a number of nanoseconds
  that only \<^verbatim>\<open>clock.Sleep\<close> moves, by the duration slept. It travels beside the world, so
  that a polling function, which gets the world, cannot move it.
\<close>

definition second :: int where
  "second = 1000000000"

text \<open>
  The loop of \<open>pollUntilSuccess\<close>. A polling function is a Go closure: it acts on the
  world and on the variables it captured, of type \<open>'c\<close>, and it can read the clock of
  the factory it captured: its first argument is the time at which it is invoked.
  \<open>deadline\<close> is \<^verbatim>\<open>startingTime.Add(factory.timeout)\<close>.
\<close>

function pollLoop ::
  "(int \<Rightarrow> 'c \<times> world \<Rightarrow> bool \<times> 'c \<times> world) \<Rightarrow> bool \<Rightarrow> int \<Rightarrow> int \<times> 'c \<times> world
     \<Rightarrow> bool \<times> int \<times> 'c \<times> world"
where
  "pollLoop pollingFunc outputProgress deadline (now, c, w) =
     (if deadline > now then
        (case pollingFunc now (c, w) of
           (result, c1, w1) \<Rightarrow>
             if result then (True, now, c1, NewLine w1)
             else pollLoop pollingFunc outputProgress deadline
                    (now + 1 * second, c1, if outputProgress then Say ''.'' w1 else w1))
      else (False, now, c, NewLine w))"
  by pat_completeness auto
termination
  by (relation "measure (\<lambda>(pollingFunc, outputProgress, deadline, now, c, w). nat (deadline - now))")
     (auto simp: second_def)

definition pollUntilSuccess ::
  "AppRunnerCommandFactory \<Rightarrow> (int \<Rightarrow> 'c \<times> world \<Rightarrow> bool \<times> 'c \<times> world) \<Rightarrow> bool
     \<Rightarrow> int \<times> 'c \<times> world \<Rightarrow> bool \<times> int \<times> 'c \<times> world"
where
  "pollUntilSuccess factory pollingFunc outputProgress s =
     (case s of (startingTime, c, w) \<Rightarrow>
        pollLoop pollingFunc outputProgress (startingTime + timeout factory) (startingTime, c, w))"

text \<open>
  The closure polled by \<open>pollUntilAllInstancesRunning\<close>; its captured variable is
  \<open>placementErrorOccurred\<close>. It does not read the clock.
\<close>

definition placementErrorText :: string where
  "placementErrorText = ''Error, could not place all instances: insufficient resources. ''
     @ ''Try requesting fewer instances or reducing the requested memory or disk capacity.''"

definition instancesPoll ::
  "AppRunnerCommandFactory \<Rightarrow> string \<Rightarrow> int \<Rightarrow> int \<Rightarrow> bool \<times> world \<Rightarrow> bool \<times> bool \<times> world"
where
  "instancesPoll factory appName instances now s =
     (case s of (placementErrorOccurred, w) \<Rightarrow>
        (case RunningAppInstancesInfo (appRunner factory) appName (infoQueries w) of
           (numberOfRunningInstances, placementError) \<Rightarrow>
             let w1 = w\<lparr>infoQueries := infoQueries w + 1\<rparr> in
             if placementError then (True, True, Say (Red factory placementErrorText) w1)
             else (numberOfRunningInstances = instances, placementErrorOccurred, w1)))"

text \<open>
  The exit handler records the code and returns, as the handler the tests inject does;
  the statement after the call runs.
\<close>

definition Exit :: "exit_code \<Rightarrow> world \<Rightarrow> world" where
  "Exit code w = w\<lparr>exits := exits w @ [code]\<rparr>"

definition pollUntilAllInstancesRunning ::
  "AppRunnerCommandFactory \<Rightarrow> string \<Rightarrow> int \<Rightarrow> string \<Rightarrow> int \<times> world \<Rightarrow> bool \<times> int \<times> world"
where
  "pollUntilAllInstancesRunning factory appName instances action s =
     (case s of (now, w) \<Rightarrow>
        (case pollUntilSuccess factory (instancesPoll factory appName instances) True
                (now, False, w) of
           (ok, now', placementErrorOccurred, w') \<Rightarrow>
             if placementErrorOccurred then (False, now', Exit PlacementError w')
             else if \<not> ok then
               (ok, now',
                SayLine (Red factory (appName @ '' took too long to '' @ action @ ''.'')) w')
             else (ok, now', w')))"

definition setAppInstances ::
  "AppRunnerCommandFactory \<Rightarrow> string \<Rightarrow> int \<Rightarrow> int \<times> world \<Rightarrow> int \<times> world"
where
  "setAppInstances factory appName instances s =
     (case s of (now, w) \<Rightarrow>
        let w1 = w\<lparr>scaled := scaled w @ [(appName, instances)]\<rparr> in
        (case ScaleApp (appRunner factory) appName instances of
           Some err \<Rightarrow>
             (now, Say (''Error Scaling App to '' @ Itoa instances @ '' instances: '' @ err) w1)
         | None \<Rightarrow>
             let w2 = Say (''Scaling '' @ appName @ '' to '' @ Itoa instances
                           @ '' instances \<newline>'') w1
             in (case pollUntilAllInstancesRunning factory appName instances ''scale'' (now, w2) of
                   (ok, now', w3) \<Rightarrow>
                     if ok then (now', Say (Green factory ''App Scaled Successfully'') w3)
                     else (now', w3))))"

subsection \<open>The create command\<close>

text \<open>
  What \<open>createApp\<close> reads from its \<^verbatim>\<open>cli.Context\<close>: the flags of
  \<open>MakeCreateAppCommand\<close> and the positional arguments.
\<close>

record Context =
  working_dir :: string
  run_as_root :: bool
  env_flag :: "string list"
  cpu_weight :: int
  memory_mb :: int
  disk_mb :: int
  ports_flag :: string
  monitored_port :: int
  routes_flag :: string
  instances_flag :: int
  no_monitor :: bool
  Args :: "string list"

text \<open>\<^verbatim>\<open>cli.Args.Get\<close>: the empty string beyond the last argument.\<close>

definition Get :: "string list \<Rightarrow> nat \<Rightarrow> string" where
  "Get a n = (if length a > n then a ! n else [])"

text \<open>
  A Go function returns or panics; an index out of range is a run-time panic.
\<close>

datatype outcome = Returned | Panicked

text \<open>
  The loop that prints one URL for each comma-separated piece of the routes flag;
  \<^verbatim>\<open>strings.Split(route, ":")[1]\<close> panics when the piece has no colon.
\<close>

fun sayRouteUrls :: "AppRunnerCommandFactory \<Rightarrow> string list \<Rightarrow> world \<Rightarrow> outcome \<times> world" where
  "sayRouteUrls factory [] w = (Returned, w)"
| "sayRouteUrls factory (route # rest) w =
     (let routeArr = Split CHR '':'' route in
      if length routeArr > 1 then
        sayRouteUrls factory rest (Say (Green factory (urlForApp factory (routeArr ! 1))) w)
      else (Panicked, w))"

text \<open>
  The end of \<open>createApp\<close>, from the convergence poll on: what runs once the cluster has
  accepted the application.
\<close>

definition createApp_wait ::
  "AppRunnerCommandFactory \<Rightarrow> string \<Rightarrow> int \<Rightarrow> string \<Rightarrow> RouteOverride list \<Rightarrow> int \<times> world
     \<Rightarrow> outcome \<times> int \<times> world"
where
  "createApp_wait factory name instancesFlag routesFlag routeOverrides s =
     (case pollUntilAllInstancesRunning factory name instancesFlag ''start'' s of
        (ok, now', w1) \<Rightarrow>
          let w2 = (if ok then Say (Green factory (name @ '' is now running.\<newline>'')) w1 else w1)
          in if routeOverrides \<noteq> [] then
               (case sayRouteUrls factory (Split CHR '','' routesFlag) w2 of
                  (out, w3) \<Rightarrow> (out, now', w3))
             else (Returned, now', Say (Green factory (urlForApp factory name)) w2))"

text \<open>
  \<open>createApp\<close>. The \<^verbatim>\<open>switch\<close> takes its first true case: \<open>Inl\<close> is a case that
  returns, \<open>Inr\<close> leaves the switch with the value of \<open>appArgs\<close>. The start-command
  step is written the same way. The log outputter runs beside the command; the model
  keeps its start and the deferred stop.
\<close>

definition createApp ::
  "AppRunnerCommandFactory \<Rightarrow> Context \<Rightarrow> int \<times> world \<Rightarrow> outcome \<times> int \<times> world"
where
  "createApp factory context s =
     (case s of (now, w) \<Rightarrow>
      let workingDirFlag = working_dir context;
          envVarsFlag = env_flag context;
          instancesFlag = instances_flag context;
          cpuWeightFlag = nat (cpu_weight context mod 2 ^ 64);
          memoryMBFlag = memory_mb context;
          diskMBFlag = disk_mb context;
          portsFlag = ports_flag context;
          monitoredPortFlag = monitored_port context;
          routesFlag = routes_flag context;
          noMonitorFlag = no_monitor context;
          name = Get (Args context) 0;
          dockerImage = Get (Args context) 1;
          terminator = Get (Args context) 2;
          startCommand = Get (Args context) 3
      in
      (case (if length (Args context) < 2 then
               Inl (IncorrectUsage ''APP_NAME and DOCKER_IMAGE are required'' w)
             else if startCommand \<noteq> [] \<and> terminator \<noteq> ''--'' then
               Inl (IncorrectUsage (CHR 0x27 # ''--'' @ CHR 0x27 # '' Required before start command'') w)
             else if length (Args context) > 4 then
               Inr (drop 4 (Args context))
             else if cpuWeightFlag < 1 \<or> cpuWeightFlag > 100 then
               Inl (IncorrectUsage ''Invalid CPU Weight'' w)
             else Inr [])
       of
         Inl w' \<Rightarrow> (Returned, now, w')
       | Inr appArgs \<Rightarrow>
      let w1 = w\<lparr>fetched := fetched w @ [dockerImage]\<rparr> in
      (case FetchMetadata factory dockerImage of
         Inl err \<Rightarrow> (Returned, now, Say (''Error fetching image metadata: '' @ err) w1)
       | Inr imageMetadata \<Rightarrow>
      (case getPortConfigFromArgs portsFlag monitoredPortFlag noMonitorFlag imageMetadata w1 of
         ((portConfig, Some err), w2) \<Rightarrow> (Returned, now, Say err w2)
       | ((portConfig, None), w2) \<Rightarrow>
      (case (if workingDirFlag = [] then
               let w3 = Say (''No working directory specified, ''
                             @ ''using working directory from the image metadata...\<newline>'') w2
               in if WorkingDir imageMetadata \<noteq> [] then
                    (WorkingDir imageMetadata,
                     Say (WorkingDir imageMetadata @ ''\<newline>'')
                       (Say ''Working directory is:\<newline>'' w3))
                  else (''/'', w3)
             else (workingDirFlag, w2))
       of (workingDirFlag, w3) \<Rightarrow>
      let w4 = (if \<not> noMonitorFlag then
                  Say (''Monitoring the app on port '' @ Itoa (uint (Monitored portConfig))
                       @ ''...\<newline>'') w3
                else Say ''No ports will be monitored.\<newline>'' w3)
      in
      (case (if startCommand = [] then
               if length (StartCommand imageMetadata) = 0 then
                 Inl (SayLine ''Unable to determine start command from image metadata.'' w4)
               else
                 Inr (StartCommand imageMetadata ! 0, drop 1 (StartCommand imageMetadata),
                      Say (Join (StartCommand imageMetadata) '' '' @ ''\<newline>'')
                        (Say ''Start command is:\<newline>''
                           (Say (''No start command specified, ''
                                 @ ''using start command from the image metadata...\<newline>'') w4)))
             else Inr (startCommand, appArgs, w4))
       of
         Inl w' \<Rightarrow> (Returned, now, w')
       | Inr (startCommand, appArgs, w5) \<Rightarrow>
      (case parseRouteOverrides routesFlag of
         (routeOverrides, Some err) \<Rightarrow> (Returned, now, Say err w5)
       | (routeOverrides, None) \<Rightarrow>
      let params = \<lparr>AppName = name,
                    DockerImagePath = dockerImage,
                    AppStartCommand = startCommand,
                    AppArgs = appArgs,
                    EnvironmentVariables = buildEnvironment factory envVarsFlag,
                    Privileged = run_as_root context,
                    Monitor = (\<not> noMonitorFlag),
                    Instances = instancesFlag,
                    CPUWeight = cpuWeightFlag,
                    MemoryMB = memoryMBFlag,
                    DiskMB = diskMBFlag,
                    AppPorts = portConfig,
                    AppWorkingDir = workingDirFlag,
                    RouteOverrides = routeOverrides\<rparr>;
          w6 = w5\<lparr>created := created w5 @ [params]\<rparr>
      in
      (case CreateDockerApp (appRunner factory) params of
         Some err \<Rightarrow> (Returned, now, Say (''Error Creating App: '' @ err) w6)
       | None \<Rightarrow>
      let w7 = Say (''Creating App: '' @ name @ ''\<newline>'') w6;
          w8 = w7\<lparr>tailed := tailed w7 @ [OutputTailedLogs name]\<rparr>
      in
      (case createApp_wait factory name instancesFlag routesFlag routeOverrides (now, w8) of
         (out, now', w9) \<Rightarrow>
           (out, now', w9\<lparr>tailed := tailed w9 @ [StopOutputting]\<rparr>))))))))))"

text \<open>The invariant the data model states for a \<open>PortConfig\<close>.\<close>

definition portInvariant :: "PortConfig \<Rightarrow> bool" where
  "portInvariant pc = (Monitored pc = 0 \<or> Monitored pc \<in> set (Exposed pc))"

text \<open>
  A port token the conversion loop rejects: \<open>Atoi\<close> fails on it, or its value is above
  65535.
\<close>

definition badPort :: "string \<Rightarrow> bool" where
  "badPort p = (case Atoi p of None \<Rightarrow> True | Some n \<Rightarrow> n > 65535)"

text \<open>
  The words used for a route segment: the part left of its first colon, everything after
  its first colon, and what makes it well formed (a colon, and a left part that \<open>Atoi\<close>
  accepts).
\<close>

definition leftPart :: "string \<Rightarrow> string" where
  "leftPart seg = takeWhile (\<lambda>c. c \<noteq> CHR '':'') seg"

definition afterFirstColon :: "string \<Rightarrow> string" where
  "afterFirstColon seg = tl (dropWhile (\<lambda>c. c \<noteq> CHR '':'') seg)"

definition wellFormedRoute :: "string \<Rightarrow> bool" where
  "wellFormedRoute seg = (CHR '':'' \<in> set seg \<and> Atoi (leftPart seg) \<noteq> None)"

text \<open>
  One pass of the polling loop that does not succeed, apart from the sleep: the polling
  function is invoked once, at the time \<open>t\<close>, then the progress dot is written if asked
  for. The number of passes a timeout allows when every pass sleeps one second:
  \<open>timeout div second\<close>, and one more when the timeout is not a whole number of seconds.
  And the times of \<open>n\<close> invocations one second apart, the first at the starting time.
\<close>

definition pollRound ::
  "(int \<Rightarrow> 'c \<times> world \<Rightarrow> bool \<times> 'c \<times> world) \<Rightarrow> bool \<Rightarrow> int \<Rightarrow> 'c \<times> world \<Rightarrow> 'c \<times> world"
where
  "pollRound pollingFunc outputProgress t s =
     (case pollingFunc t s of
        (result, c1, w1) \<Rightarrow> (c1, if outputProgress then Say ''.'' w1 else w1))"

definition pollCalls :: "int \<Rightarrow> nat" where
  "pollCalls t = (if second dvd t then nat (t div second) else nat (t div second) + 1)"

definition pollTimes :: "int \<Rightarrow> nat \<Rightarrow> int list" where
  "pollTimes startingTime n = map (\<lambda>i. startingTime + int i * second) [0..<n]"

text \<open>
  A polling function that never succeeds and keeps, in its captured variable, the list
  of the times at which it was invoked.
\<close>

definition timeKeeper :: "int \<Rightarrow> int list \<times> world \<Rightarrow> bool \<times> int list \<times> world" where
  "timeKeeper t s = (case s of (seen, w) \<Rightarrow> (False, seen @ [t], w))"

text \<open>Fixed inputs for the closed statements below.\<close>

definition world0 :: world where
  "world0 = \<lparr>said = [], exits = [], fetched = [], created = [], scaled = [],
             infoQueries = 0, tailed = []\<rparr>"

definition noMetadata :: ImageMetadata where
  "noMetadata = \<lparr>WorkingDir = [], Ports = zeroPortConfig, StartCommand = []\<rparr>"

text \<open>
  A cluster that accepts every request and never reports an instance as running, an
  image that declares a start command, and a factory over them with a timeout of five
  seconds and one inherited environment entry.
\<close>

definition idleRunner :: AppRunner where
  "idleRunner = \<lparr>CreateDockerApp = (\<lambda>params. None), ScaleApp = (\<lambda>appName instances. None),
                  RunningAppInstancesInfo = (\<lambda>appName n. (0, False))\<rparr>"

definition webMetadata :: ImageMetadata where
  "webMetadata = \<lparr>WorkingDir = ''/srv'', Ports = \<lparr>Monitored = 80, Exposed = [80]\<rparr>,
                   StartCommand = [''/bin/web'', ''-v'']\<rparr>"

definition factory0 :: AppRunnerCommandFactory where
  "factory0 = \<lparr>appRunner = idleRunner, FetchMetadata = (\<lambda>image. Inr webMetadata),
               timeout = 5 * second, domain = ''example.com'', env = [''FOO=bar''],
               Green = (\<lambda>output. ''<green>'' @ output), Red = (\<lambda>output. ''<red>'' @ output)\<rparr>"

text \<open>A cluster that reports a placement error from its third answer on.\<close>

definition fullRunner :: AppRunner where
  "fullRunner = idleRunner\<lparr>RunningAppInstancesInfo := (\<lambda>appName n. (0, n \<ge> 2))\<rparr>"

definition context0 :: Context where
  "context0 = \<lparr>working_dir = [], run_as_root = False, env_flag = [], cpu_weight = 100,
               memory_mb = 128, disk_mb = 1024, ports_flag = [], monitored_port = 0,
               routes_flag = [], instances_flag = 1, no_monitor = False,
               Args = [''app'', ''img'']\<rparr>"

section \<open>Properties\<close>

subsection \<open>Splitting\<close>

lemma Split_nonempty: "Split sep s \<noteq> []"
  by (induction s) (auto simp: Let_def)

subsection \<open>Port configuration\<close>

lemma convertPorts_None: "convertPorts ps acc = None \<longleftrightarrow> (\<exists>p \<in> set ps. badPort p)"
  by (induction ps arbitrary: acc) (auto simp: badPort_def split: option.splits)

lemma convertPorts_Some:
  "convertPorts ps acc = Some r \<Longrightarrow> r = acc @ map (\<lambda>p. word_of_int (the (Atoi p))) ps"
proof (induction ps arbitrary: acc)
  case Nil
  then show ?case by simp
next
  case (Cons p ps)
  from Cons.prems obtain n where n: "Atoi p = Some n" "\<not> n > 65535"
    and rest: "convertPorts ps (acc @ [word_of_int n]) = Some r"
    by (auto split: option.splits if_splits)
  from Cons.IH[OF rest] n show ?case by simp
qed

lemmas port_eval =
  getPortConfigFromArgs_def Atoi_def ParseUint_def digitVal_def sort_Strings_def
  zeroPortConfig_def IsEmpty_def noMetadata_def world0_def Let_def

text \<open>
  Claim C1, as the code has it. When \<open>getPortConfigFromArgs\<close> returns a \<open>PortConfig\<close>
  without error, the monitored port is 0 or one of the exposed ports, provided the two
  values the code passes on unchecked are right: the image metadata's own
  \<open>PortConfig\<close> satisfies the invariant when the ports string is empty, and, when two
  or more ports are listed, the monitored-port flag taken as a \<open>uint16\<close> is 0 or the
  value of one of the listed ports.
\<close>

theorem getPortConfigFromArgs_invariant:
  assumes res: "getPortConfigFromArgs portsFlag monitoredPortFlag noMonitorFlag imageMetadata w =
      ((pc, None), w')"
    and meta: "portsFlag = [] \<Longrightarrow> portInvariant (Ports imageMetadata)"
    and flag: "length (Split CHR '','' portsFlag) > 1 \<Longrightarrow>
       (word_of_int monitoredPortFlag :: uint16) = 0 \<or>
       (\<exists>p \<in> set (Split CHR '','' portsFlag). \<exists>n. Atoi p = Some n \<and>
           (word_of_int n :: uint16) = word_of_int monitoredPortFlag)"
  shows "portInvariant pc"
proof (cases "portsFlag = []")
  case True
  then show ?thesis using res meta
    by (auto simp: getPortConfigFromArgs_def portInvariant_def Let_def split: if_splits)
next
  case False
  let ?ps = "Split CHR '','' portsFlag"
  from False res obtain cp where cp: "convertPorts (sort_Strings ?ps) [] = Some cp"
    and pc: "pc = \<lparr>Monitored = (if length ?ps > 1 then word_of_int monitoredPortFlag else cp ! 0),
                  Exposed = cp\<rparr>"
    by (auto simp: getPortConfigFromArgs_def Let_def split: if_splits option.splits)
  have cpmap: "cp = map (\<lambda>p. word_of_int (the (Atoi p))) (sort_Strings ?ps)"
    using convertPorts_Some[OF cp] by simp
  show ?thesis
  proof (cases "length ?ps > 1")
    case True
    from flag[OF True] show ?thesis
    proof
      assume "(word_of_int monitoredPortFlag :: uint16) = 0"
      then show ?thesis using True pc by (simp add: portInvariant_def)
    next
      assume "\<exists>p \<in> set ?ps. \<exists>n. Atoi p = Some n \<and>
           (word_of_int n :: uint16) = word_of_int monitoredPortFlag"
      then obtain p n where p: "p \<in> set ?ps" "Atoi p = Some n"
        "(word_of_int n :: uint16) = word_of_int monitoredPortFlag" by blast
      then have "(word_of_int monitoredPortFlag :: uint16) \<in> set cp"
        unfolding cpmap sort_Strings_def by force
      then show ?thesis using True pc by (simp add: portInvariant_def)
    qed
  next
    case single: False
    have "length cp = length ?ps" by (simp add: cpmap sort_Strings_def)
    moreover have "?ps \<noteq> []" by (rule Split_nonempty)
    ultimately have "cp \<noteq> []" by auto
    then have "cp ! 0 \<in> set cp" by (cases cp) auto
    then show ?thesis using single pc by (simp add: portInvariant_def)
  qed
qed

text \<open>Ports 80 and 90 with monitored port 90: the hypotheses hold and so does the invariant.\<close>

theorem getPortConfigFromArgs_invariant_witness:
  "getPortConfigFromArgs ''80,90'' 90 False noMetadata world0 =
     ((\<lparr>Monitored = 90, Exposed = [80, 90]\<rparr>, None), world0)
   \<and> portInvariant \<lparr>Monitored = 90, Exposed = [80, 90]\<rparr>"
proof -
  have res: "getPortConfigFromArgs ''80,90'' 90 False noMetadata world0 =
     ((\<lparr>Monitored = 90, Exposed = [80, 90]\<rparr>, None), world0)"
    by (simp add: port_eval)
  have "portInvariant \<lparr>Monitored = 90, Exposed = [80, 90]\<rparr>"
  proof (rule getPortConfigFromArgs_invariant [OF res])
    show "(word_of_int 90 :: uint16) = 0 \<or>
       (\<exists>p \<in> set (Split CHR '','' ''80,90''). \<exists>n. Atoi p = Some n \<and>
           (word_of_int n :: uint16) = word_of_int 90)"
      by (simp add: Atoi_def ParseUint_def digitVal_def)
  qed simp
  with res show ?thesis by simp
qed

text \<open>
  Claim C1 as stated fails: with ports 80 and 90 and monitored port 100 the call succeeds
  and the monitored port is neither 0 nor exposed.
\<close>

theorem getPortConfigFromArgs_invariant_counterexample:
  "getPortConfigFromArgs ''80,90'' 100 False noMetadata world0 =
     ((\<lparr>Monitored = 100, Exposed = [80, 90]\<rparr>, None), world0)
   \<and> \<not> portInvariant \<lparr>Monitored = 100, Exposed = [80, 90]\<rparr>"
  by (simp add: port_eval portInvariant_def)

text \<open>
  Claim C2, as the code has it. For a non-empty ports string on which the
  monitored-port check does not fire (one token, or a monitored-port flag other than 0,
  or monitoring disabled), if some comma-separated token fails \<open>Atoi\<close> or has a value
  above 65535, then \<open>getPortConfigFromArgs\<close> returns the zero \<open>PortConfig\<close> with exactly
  the \<open>InvalidPort\<close> message, and the world is as it was.
\<close>

theorem getPortConfigFromArgs_invalid_port:
  assumes "portsFlag \<noteq> []"
    and "t \<in> set (Split CHR '','' portsFlag)"
    and "badPort t"
    and "length (Split CHR '','' portsFlag) \<le> 1 \<or> monitoredPortFlag \<noteq> 0 \<or> noMonitorFlag"
  shows "getPortConfigFromArgs portsFlag monitoredPortFlag noMonitorFlag imageMetadata w =
    ((zeroPortConfig, Some InvalidPortErrorMessage), w)"
proof -
  have "t \<in> set (sort_Strings (Split CHR '','' portsFlag))"
    using assms(2) by (simp add: sort_Strings_def)
  then have "convertPorts (sort_Strings (Split CHR '','' portsFlag)) [] = None"
    using assms(3) convertPorts_None by blast
  then show ?thesis
    using assms(1,4) by (auto simp add: getPortConfigFromArgs_def Let_def)
qed

text \<open>The ports string \<open>80,abc\<close> with monitored port 80.\<close>

theorem getPortConfigFromArgs_invalid_port_witness:
  "''80,abc'' \<noteq> [] \<and> ''abc'' \<in> set (Split CHR '','' ''80,abc'') \<and> badPort ''abc''
   \<and> getPortConfigFromArgs ''80,abc'' 80 False noMetadata world0 =
       ((zeroPortConfig, Some InvalidPortErrorMessage), world0)"
proof -
  have bad: "badPort ''abc''"
    by (simp add: badPort_def Atoi_def ParseUint_def digitVal_def)
  have mem: "''abc'' \<in> set (Split CHR '','' ''80,abc'')" by simp
  have "getPortConfigFromArgs ''80,abc'' 80 False noMetadata world0 =
       ((zeroPortConfig, Some InvalidPortErrorMessage), world0)"
    by (rule getPortConfigFromArgs_invalid_port [OF _ mem bad]) simp_all
  with bad mem show ?thesis by simp
qed

text \<open>
  Claim C2 as stated fails twice. The token \<open>-1\<close> is not in the range 0 to 65535, yet it
  is accepted and becomes port 65535. And \<open>abc,80\<close> with no monitored port and
  monitoring enabled gets the \<open>MustSetMonitoredPort\<close> message, not \<open>InvalidPort\<close>.
\<close>

theorem getPortConfigFromArgs_invalid_port_counterexample:
  "getPortConfigFromArgs ''-1'' 0 False noMetadata world0 =
     ((\<lparr>Monitored = 65535, Exposed = [65535]\<rparr>, None), world0)
   \<and> Atoi ''-1'' = Some (- 1)
   \<and> getPortConfigFromArgs ''abc,80'' 0 False noMetadata world0 =
       ((zeroPortConfig, Some MustSetMonitoredPortErrorMessage), world0)
   \<and> badPort ''abc''
   \<and> MustSetMonitoredPortErrorMessage \<noteq> InvalidPortErrorMessage"
  by (simp add: port_eval badPort_def MustSetMonitoredPortErrorMessage_def
        InvalidPortErrorMessage_def)

text \<open>
  Claim C6. For every ports string that splits on commas into two or more tokens, with
  the monitored-port flag 0 and monitoring not disabled, \<open>getPortConfigFromArgs\<close> returns
  exactly the \<open>MustSetMonitoredPort\<close> message with the zero \<open>PortConfig\<close>, whatever the
  tokens and the image metadata are, and writes nothing.
\<close>

theorem getPortConfigFromArgs_must_set_monitored_port:
  assumes "length (Split CHR '','' portsFlag) \<ge> 2"
  shows "getPortConfigFromArgs portsFlag 0 False imageMetadata w =
    ((zeroPortConfig, Some MustSetMonitoredPortErrorMessage), w)"
proof -
  from assms have "portsFlag \<noteq> []" by (cases portsFlag) auto
  with assms show ?thesis by (simp add: getPortConfigFromArgs_def Let_def)
qed

text \<open>The ports string \<open>80,90\<close>.\<close>

theorem getPortConfigFromArgs_must_set_monitored_port_witness:
  "length (Split CHR '','' ''80,90'') \<ge> 2
   \<and> getPortConfigFromArgs ''80,90'' 0 False webMetadata world0 =
       ((zeroPortConfig, Some MustSetMonitoredPortErrorMessage), world0)"
proof -
  have len: "length (Split CHR '','' ''80,90'') \<ge> 2" by simp
  from getPortConfigFromArgs_must_set_monitored_port [OF len, of webMetadata world0] len
  show ?thesis by simp
qed

subsection \<open>Route overrides\<close>

lemma Split_unfold:
  "Split sep s = takeWhile (\<lambda>c. c \<noteq> sep) s #
     (if sep \<in> set s then Split sep (tl (dropWhile (\<lambda>c. c \<noteq> sep) s)) else [])"
  by (induction s) (auto simp: Let_def)

lemma Split_0: "Split sep s ! 0 = takeWhile (\<lambda>c. c \<noteq> sep) s"
  by (subst Split_unfold) simp

lemma Split_length: "sep \<in> set s \<Longrightarrow> length (Split sep s) \<ge> 2"
  by (subst Split_unfold) (simp add: Suc_le_eq Split_nonempty)

lemma Split_length_iff: "length (Split sep s) > 1 \<longleftrightarrow> sep \<in> set s"
  by (subst Split_unfold) (simp add: Split_nonempty)

lemma Split_1:
  "sep \<in> set s \<Longrightarrow>
   Split sep s ! 1 = takeWhile (\<lambda>c. c \<noteq> sep) (tl (dropWhile (\<lambda>c. c \<noteq> sep) s))"
  by (subst Split_unfold) (simp add: Split_0)

lemma Split_append_sep:
  "sep \<notin> set a \<Longrightarrow> Split sep (a @ sep # b) = a # Split sep b"
  by (induction a) (auto simp: Let_def)

lemma parseRoutes_wellFormed:
  "\<forall>seg \<in> set segs. seg \<noteq> [] \<longrightarrow> wellFormedRoute seg \<Longrightarrow>
   parseRoutes segs acc =
     (acc @ map (\<lambda>seg. \<lparr>HostnamePrefix = leftPart (afterFirstColon seg),
                          Port = word_of_int (the (Atoi (leftPart seg)))\<rparr>)
              (filter (\<lambda>seg. seg \<noteq> []) segs), None)"
proof (induction segs arbitrary: acc)
  case Nil
  then show ?case by simp
next
  case (Cons seg segs)
  show ?case
  proof (cases "seg = []")
    case True
    with Cons show ?thesis by simp
  next
    case False
    with Cons.prems have wf: "wellFormedRoute seg" by simp
    then obtain n where n: "Atoi (Split CHR '':'' seg ! 0) = Some n"
      by (auto simp: wellFormedRoute_def leftPart_def Split_0)
    from wf have len: "\<not> length (Split CHR '':'' seg) < 2"
      using Split_length[of "CHR '':''" seg] by (simp add: wellFormedRoute_def)
    from wf have one: "Split CHR '':'' seg ! 1 = leftPart (afterFirstColon seg)"
      using Split_1[of "CHR '':''" seg]
      by (simp add: wellFormedRoute_def leftPart_def afterFirstColon_def)
    from n have port: "the (Atoi (leftPart seg)) = n"
      by (simp add: leftPart_def Split_0)
    from Cons.prems have rest: "\<forall>seg \<in> set segs. seg \<noteq> [] \<longrightarrow> wellFormedRoute seg" by simp
    show ?thesis
      using False n len one port Cons.IH[OF rest]
      by (simp add: Let_def)
  qed
qed

lemmas route_eval =
  parseRouteOverrides_def Atoi_def ParseUint_def digitVal_def Let_def
  wellFormedRoute_def leftPart_def afterFirstColon_def

text \<open>
  Claim C8, as the code has it. When every non-empty comma-separated segment of the
  route string is well formed, \<open>parseRouteOverrides\<close> returns without error one
  override per non-empty segment, in segment order and with duplicates kept. The port
  is the left part as \<open>Atoi\<close> reads it, converted to \<open>uint16\<close>. The hostname prefix is
  the text after the first colon only as far as the next colon: the code splits the
  segment on every colon and takes the second piece, so a prefix never contains a colon.
  The empty route string yields the empty (nil) list.
\<close>

theorem parseRouteOverrides_wellFormed:
  assumes "\<forall>seg \<in> set (Split CHR '','' routes). seg \<noteq> [] \<longrightarrow> wellFormedRoute seg"
  shows "parseRouteOverrides routes =
     (map (\<lambda>seg. \<lparr>HostnamePrefix = leftPart (afterFirstColon seg),
                    Port = word_of_int (the (Atoi (leftPart seg)))\<rparr>)
        (filter (\<lambda>seg. seg \<noteq> []) (Split CHR '','' routes)), None)
     \<and> parseRouteOverrides [] = ([], None)"
  using parseRoutes_wellFormed[OF assms, of "[]"]
  by (simp add: parseRouteOverrides_def)

text \<open>
  The route string \<open>80:web,,8080:api,80:web\<close>: the empty segment is skipped, the order
  is kept and so is the duplicate.
\<close>

theorem parseRouteOverrides_wellFormed_witness:
  "Split CHR '','' ''80:web,,8080:api,80:web'' = [''80:web'', [], ''8080:api'', ''80:web'']
   \<and> wellFormedRoute ''80:web'' \<and> wellFormedRoute ''8080:api''
   \<and> parseRouteOverrides ''80:web,,8080:api,80:web'' =
       ([\<lparr>HostnamePrefix = ''web'', Port = 80\<rparr>, \<lparr>HostnamePrefix = ''api'', Port = 8080\<rparr>,
         \<lparr>HostnamePrefix = ''web'', Port = 80\<rparr>], None)"
proof -
  have wf: "\<forall>seg \<in> set (Split CHR '','' ''80:web,,8080:api,80:web'').
              seg \<noteq> [] \<longrightarrow> wellFormedRoute seg"
    by (simp add: route_eval)
  have w: "wellFormedRoute ''80:web''" "wellFormedRoute ''8080:api''"
    by (simp_all add: route_eval)
  from parseRouteOverrides_wellFormed [OF wf] w show ?thesis
    by (simp add: Atoi_def ParseUint_def digitVal_def leftPart_def afterFirstColon_def)
qed

text \<open>
  Claim C8 as stated fails: the segment \<open>80:a:b\<close> is well formed and everything after
  its first colon is \<open>a:b\<close>, but the hostname prefix returned is \<open>a\<close>.
\<close>

theorem parseRouteOverrides_wellFormed_counterexample:
  "wellFormedRoute ''80:a:b''
   \<and> afterFirstColon ''80:a:b'' = ''a:b''
   \<and> parseRouteOverrides ''80:a:b'' = ([\<lparr>HostnamePrefix = ''a'', Port = 80\<rparr>], None)"
  by (simp add: route_eval)

text \<open>
  Claim C10. \<open>parseRouteOverrides\<close> makes no range check on the port. When every
  non-empty segment has a colon and a left part that \<open>Atoi\<close> accepts, whatever its value,
  the call succeeds, and the port stored for each segment is that value modulo \<open>2 ^ 16\<close>.
\<close>

theorem parseRouteOverrides_port_truncated:
  assumes "\<forall>seg \<in> set (Split CHR '','' routes). seg \<noteq> [] \<longrightarrow> wellFormedRoute seg"
  shows "snd (parseRouteOverrides routes) = None \<and>
     map (\<lambda>r. uint (Port r)) (fst (parseRouteOverrides routes)) =
     map (\<lambda>seg. the (Atoi (leftPart seg)) mod 2 ^ 16)
        (filter (\<lambda>seg. seg \<noteq> []) (Split CHR '','' routes))"
  using parseRoutes_wellFormed[OF assms, of "[]"]
  by (simp add: parseRouteOverrides_def comp_def uint_word_of_int_eq take_bit_eq_mod)

text \<open>
  The route string \<open>70000:web,-1:x\<close>: it parses without error, 70000 is stored as 4464
  and \<open>-1\<close> as 65535.
\<close>

theorem parseRouteOverrides_port_truncated_witness:
  "Split CHR '','' ''70000:web,-1:x'' = [''70000:web'', ''-1:x'']
   \<and> wellFormedRoute ''70000:web'' \<and> wellFormedRoute ''-1:x''
   \<and> Atoi (leftPart ''70000:web'') = Some 70000
   \<and> Atoi (leftPart ''-1:x'') = Some (- 1)
   \<and> snd (parseRouteOverrides ''70000:web,-1:x'') = None
   \<and> map (\<lambda>r. uint (Port r)) (fst (parseRouteOverrides ''70000:web,-1:x'')) = [4464, 65535]"
proof -
  have wf: "\<forall>seg \<in> set (Split CHR '','' ''70000:web,-1:x''). seg \<noteq> [] \<longrightarrow> wellFormedRoute seg"
    by (simp add: route_eval)
  have a: "Atoi (leftPart ''70000:web'') = Some 70000" "Atoi (leftPart ''-1:x'') = Some (- 1)"
    by (simp_all add: Atoi_def ParseUint_def digitVal_def leftPart_def)
  have s: "filter (\<lambda>seg. seg \<noteq> []) (Split CHR '','' ''70000:web,-1:x'') = [''70000:web'', ''-1:x'']"
    by simp
  have w: "wellFormedRoute ''70000:web''" "wellFormedRoute ''-1:x''"
    by (simp_all add: route_eval)
  have sp: "Split CHR '','' ''70000:web,-1:x'' = [''70000:web'', ''-1:x'']" by simp
  from parseRouteOverrides_port_truncated [OF wf] w a sp show ?thesis
    unfolding s by simp
qed

subsection \<open>The environment\<close>

lemma parseEnvVarPair_eq:
  "CHR ''='' \<notin> set name \<Longrightarrow>
   parseEnvVarPair (name @ ''='' @ value) = (name, takeWhile (\<lambda>c. c \<noteq> CHR ''='') value)"
  by (simp add: parseEnvVarPair_def Split_append_sep Let_def Split_nonempty Split_0[simplified])

lemma buildEnv_append:
  "buildEnv f (xs @ ys) m = buildEnv f ys (buildEnv f xs m)"
  by (induction xs arbitrary: m) (auto split: prod.splits)

lemma buildEnv_other:
  "\<forall>t \<in> set ts. fst (parseEnvVarPair t) \<noteq> name \<Longrightarrow> buildEnv f ts m name = m name"
  by (induction ts arbitrary: m) (auto split: prod.splits)

lemmas env_eval =
  buildEnvironment_def parseEnvVarPair_def grabVarFromEnv_def HasPrefix_def factory0_def Let_def

text \<open>
  Claim C7, as the code has it. For a token \<open>NAME=VALUE\<close> whose \<open>VALUE\<close> contains no
  further \<open>=\<close> and that no later token rebinds, \<open>buildEnvironment\<close> maps \<open>NAME\<close> to
  \<open>VALUE\<close> verbatim when \<open>VALUE\<close> is not empty; for the token \<open>NAME=\<close>, with nothing
  after the \<open>=\<close>, it maps \<open>NAME\<close> to what \<open>grabVarFromEnv\<close> returns for \<open>NAME\<close>, the
  lookup in the inherited environment. Nothing is said of a \<open>VALUE\<close> that contains \<open>=\<close>.
\<close>

theorem buildEnvironment_pair:
  assumes "CHR ''='' \<notin> set name"
    and "CHR ''='' \<notin> set value"
    and "\<forall>t \<in> set later. fst (parseEnvVarPair t) \<noteq> name"
  shows "buildEnvironment factory (earlier @ [name @ ''='' @ value] @ later) name =
     Some (if value = [] then grabVarFromEnv factory name else value)"
proof -
  from assms(2) have tw: "takeWhile (\<lambda>c. c \<noteq> CHR ''='') value = value"
    by (auto simp: takeWhile_eq_all_conv)
  have pair: "parseEnvVarPair (name @ CHR ''='' # value) = (name, value)"
    using parseEnvVarPair_eq [OF assms(1), of "value"] unfolding tw by simp
  show ?thesis
    using assms(3)
    by (simp add: buildEnvironment_def buildEnv_append buildEnv_other pair)
qed

text \<open>
  The tokens \<open>FOO=baz\<close> and \<open>FOO=\<close>, each between an earlier binding of \<open>FOO\<close> and a
  token for \<open>BAR\<close>, with \<open>FOO=bar\<close> in the inherited environment.
\<close>

theorem buildEnvironment_pair_witness:
  "CHR ''='' \<notin> set ''FOO'' \<and> CHR ''='' \<notin> set ''baz''
   \<and> fst (parseEnvVarPair ''BAR=2'') \<noteq> ''FOO''
   \<and> buildEnvironment factory0 ([''FOO=1''] @ [''FOO'' @ ''='' @ ''baz''] @ [''BAR=2'']) ''FOO''
       = Some ''baz''
   \<and> grabVarFromEnv factory0 ''FOO'' = ''bar''
   \<and> buildEnvironment factory0 ([''FOO=1''] @ [''FOO'' @ ''='' @ []] @ [''BAR=2'']) ''FOO''
       = Some ''bar''"
proof -
  have n: "CHR ''='' \<notin> set ''FOO''" by simp
  have v: "CHR ''='' \<notin> set ''baz''" by simp
  have e: "CHR ''='' \<notin> set ([] :: string)" by simp
  have l: "\<forall>t \<in> set [''BAR=2'']. fst (parseEnvVarPair t) \<noteq> ''FOO''"
    by (simp add: parseEnvVarPair_def Let_def)
  from l have l': "fst (parseEnvVarPair ''BAR=2'') \<noteq> ''FOO''" by simp
  have g: "grabVarFromEnv factory0 ''FOO'' = ''bar''"
    by (simp add: grabVarFromEnv_def HasPrefix_def parseEnvVarPair_def factory0_def Let_def)
  from buildEnvironment_pair [OF n v l, of factory0 "[''FOO=1'']"]
    buildEnvironment_pair [OF n e l, of factory0 "[''FOO=1'']"] n v l' g
  show ?thesis by simp
qed

text \<open>
  Claim C7 as stated fails twice, with \<open>FOO=bar\<close> in the inherited environment: the
  token \<open>FOO=\<close> maps \<open>FOO\<close> to the inherited \<open>bar\<close>, not to the empty string, and the
  token \<open>A=b=c\<close> maps \<open>A\<close> to \<open>b\<close>, not to \<open>b=c\<close>.
\<close>

theorem buildEnvironment_pair_counterexample:
  "env factory0 = [''FOO=bar'']
   \<and> buildEnvironment factory0 [''FOO=''] ''FOO'' = Some ''bar''
   \<and> buildEnvironment factory0 [''A=b=c''] ''A'' = Some ''b''"
  by (simp add: env_eval)

subsection \<open>The convergence poller\<close>

declare pollLoop.simps [simp del]

lemma pollTimes_Suc: "pollTimes t (Suc k) = t # pollTimes (t + 1 * second) k"
proof -
  have "[0..<Suc k] = 0 # map Suc [0..<k]"
    by (simp add: upt_conv_Cons map_Suc_upt del: upt_Suc)
  then show ?thesis
    by (simp add: pollTimes_def comp_def algebra_simps del: upt_Suc)
qed

lemma pollLoop_never:
  assumes never: "\<forall>t s. \<not> fst (pf t s)"
  shows "d - now \<le> int k * second \<Longrightarrow> (int k - 1) * second < d - now \<Longrightarrow>
     pollLoop pf op d (now, c, w) =
       (case foldl (\<lambda>s t. pollRound pf op t s) (c, w) (pollTimes now k) of
          (c', w') \<Rightarrow> (False, now + int k * second, c', NewLine w'))"
proof (induction k arbitrary: now c w)
  case 0
  then have "\<not> d > now" by simp
  then show ?case by (simp add: pollLoop.simps pollTimes_def)
next
  case (Suc k)
  from Suc.prems(2) have run: "d > now" by (simp add: second_def)
  obtain r c1 w1 where pf: "pf now (c, w) = (r, c1, w1)" by (cases "pf now (c, w)") auto
  with never have r: "\<not> r" by (metis fst_conv)
  let ?w1 = "if op then Say ''.'' w1 else w1"
  have step: "pollRound pf op now (c, w) = (c1, ?w1)" by (simp add: pollRound_def pf)
  have a: "d - (now + 1 * second) \<le> int k * second"
    using Suc.prems(1) by (simp add: algebra_simps)
  have b: "(int k - 1) * second < d - (now + 1 * second)"
    using Suc.prems(2) by (simp add: algebra_simps)
  have "pollLoop pf op d (now, c, w) = pollLoop pf op d (now + 1 * second, c1, ?w1)"
    using run pf r by (subst pollLoop.simps) simp
  also have "\<dots> =
      (case foldl (\<lambda>s t. pollRound pf op t s) (c1, ?w1) (pollTimes (now + 1 * second) k) of
          (c', w') \<Rightarrow> (False, (now + 1 * second) + int k * second, c', NewLine w'))"
    by (rule Suc.IH [OF a b])
  finally show ?case
    by (simp add: pollTimes_Suc step algebra_simps)
qed

lemma pollCalls_bounds:
  "0 < t \<Longrightarrow> t \<le> int (pollCalls t) * second \<and> (int (pollCalls t) - 1) * second < t"
proof -
  assume pos: "0 < t"
  have s: "0 < second" by (simp add: second_def)
  have eq: "t = t div second * second + t mod second" by simp
  have m: "0 \<le> t mod second" "t mod second < second" using s by simp_all
  have d: "0 \<le> t div second" using pos s by (simp add: pos_imp_zdiv_nonneg_iff)
  show ?thesis
  proof (cases "second dvd t")
    case True
    then have "t mod second = 0" by (simp add: dvd_eq_mod_eq_0)
    with eq have "t = t div second * second" by simp
    with True d s show ?thesis
      by (simp add: pollCalls_def left_diff_distrib)
  next
    case False
    then have "t mod second \<noteq> 0" by (simp add: dvd_eq_mod_eq_0)
    with m have "0 < t mod second" by simp
    with eq m have "t div second * second < t" "t \<le> t div second * second + second"
      by linarith+
    with False d show ?thesis
      by (simp add: pollCalls_def algebra_simps)
  qed
qed

lemmas poll_eval =
  pollUntilSuccess_def instancesPoll_def second_def factory0_def idleRunner_def world0_def
  Say_def NewLine_def SayLine_def Exit_def

text \<open>
  Claim C3, as the code has it. With a positive timeout and a polling function that
  never returns true, \<open>pollUntilSuccess\<close> returns false after invoking the polling
  function exactly \<open>pollCalls timeout\<close> times: \<open>timeout div second\<close> times when the
  timeout is a whole number of seconds, one more otherwise. It invokes it at the times
  \<open>pollTimes\<close> lists and at no other: the first at the starting time, each one second
  after the one before, every one strictly before the timeout expires; one second after
  the last the timeout has expired. The polling function is any, and it is handed the
  time of each invocation, so the first equation fixes the times at which it runs.
\<close>

theorem pollUntilSuccess_timeout:
  assumes "timeout factory > 0" and "\<forall>t s. \<not> fst (pollingFunc t s)"
  shows "(case foldl (\<lambda>s t. pollRound pollingFunc outputProgress t s) (c, w)
                (pollTimes now (pollCalls (timeout factory))) of
           (c', w') \<Rightarrow>
             pollUntilSuccess factory pollingFunc outputProgress (now, c, w) =
               (False, now + int (pollCalls (timeout factory)) * second, c', NewLine w'))
         \<and> length (pollTimes now (pollCalls (timeout factory))) = pollCalls (timeout factory)
         \<and> pollCalls (timeout factory) > 0
         \<and> pollTimes now (pollCalls (timeout factory)) ! 0 = now
         \<and> (\<forall>i. Suc i < pollCalls (timeout factory) \<longrightarrow>
               pollTimes now (pollCalls (timeout factory)) ! Suc i =
               pollTimes now (pollCalls (timeout factory)) ! i + second)
         \<and> (\<forall>t \<in> set (pollTimes now (pollCalls (timeout factory))). t < now + timeout factory)
         \<and> now + timeout factory \<le> last (pollTimes now (pollCalls (timeout factory))) + second"
proof -
  let ?n = "pollCalls (timeout factory)"
  from pollCalls_bounds[OF assms(1)]
  have b: "timeout factory \<le> int ?n * second" "(int ?n - 1) * second < timeout factory"
    by simp_all
  have spos: "0 < second" by (simp add: second_def)
  have pos: "?n > 0"
  proof (rule ccontr)
    assume "\<not> ?n > 0"
    then have "?n = 0" by simp
    with b(1) assms(1) show False by simp
  qed
  have loop: "pollLoop pollingFunc outputProgress (now + timeout factory) (now, c, w) =
       (case foldl (\<lambda>s t. pollRound pollingFunc outputProgress t s) (c, w) (pollTimes now ?n) of
          (c', w') \<Rightarrow> (False, now + int ?n * second, c', NewLine w'))"
    by (rule pollLoop_never [OF assms(2)]) (use b in simp_all)
  have first: "pollTimes now ?n ! 0 = now"
    using pos by (simp add: pollTimes_def)
  have apart: "\<forall>i. Suc i < ?n \<longrightarrow> pollTimes now ?n ! Suc i = pollTimes now ?n ! i + second"
    by (simp add: pollTimes_def algebra_simps)
  have early: "\<forall>t \<in> set (pollTimes now ?n). t < now + timeout factory"
  proof
    fix t assume "t \<in> set (pollTimes now ?n)"
    then obtain i where i: "i < ?n" "t = now + int i * second"
      by (auto simp: pollTimes_def)
    from i(1) have "int i \<le> int ?n - 1" by simp
    then have "int i * second \<le> (int ?n - 1) * second"
      using spos by (simp add: mult_right_mono)
    with b(2) i(2) show "t < now + timeout factory" by simp
  qed
  have "last (pollTimes now ?n) = now + int (?n - 1) * second"
    using pos by (simp add: pollTimes_def last_map last_upt)
  then have late: "now + timeout factory \<le> last (pollTimes now ?n) + second"
    using b(1) pos by (simp add: algebra_simps of_nat_diff)
  have len: "length (pollTimes now ?n) = ?n" by (simp add: pollTimes_def)
  from loop have eq: "(case foldl (\<lambda>s t. pollRound pollingFunc outputProgress t s) (c, w)
                (pollTimes now ?n) of
           (c', w') \<Rightarrow>
             pollUntilSuccess factory pollingFunc outputProgress (now, c, w) =
               (False, now + int ?n * second, c', NewLine w'))"
    by (simp add: pollUntilSuccess_def split: prod.splits)
  from eq len pos first apart early late show ?thesis by blast
qed

text \<open>
  A timeout of two seconds and one nanosecond, and the polling function that keeps the
  times of its invocations: it runs three times, at 0, 1 and 2 seconds.
\<close>

theorem pollUntilSuccess_timeout_witness:
  "timeout (factory0\<lparr>timeout := 2 * second + 1\<rparr>) > 0
   \<and> pollCalls (timeout (factory0\<lparr>timeout := 2 * second + 1\<rparr>)) = 3
   \<and> pollTimes 0 3 = [0, second, 2 * second]
   \<and> pollUntilSuccess (factory0\<lparr>timeout := 2 * second + 1\<rparr>) timeKeeper True (0, [], world0) =
       (False, 3 * second, [0, second, 2 * second],
        world0\<lparr>said := [''.'', ''.'', ''.'', ''\<newline>'']\<rparr>)"
proof -
  let ?f = "factory0\<lparr>timeout := 2 * second + 1\<rparr>"
  have t: "timeout ?f > 0" by (simp add: second_def)
  have n: "\<forall>t s. \<not> fst (timeKeeper t s)"
    by (simp add: timeKeeper_def split: prod.splits)
  have c: "pollCalls (timeout ?f) = 3" by (simp add: pollCalls_def second_def)
  have p: "pollTimes 0 3 = [0, second, 2 * second]"
    by (simp add: pollTimes_def numeral_3_eq_3)
  have r: "foldl (\<lambda>s t. pollRound timeKeeper True t s) ([], world0) [0, second, 2 * second] =
      ([0, second, 2 * second], world0\<lparr>said := [''.'', ''.'', ''.'']\<rparr>)"
    by (simp add: pollRound_def timeKeeper_def world0_def Say_def)
  from pollUntilSuccess_timeout [OF t n, where outputProgress = True and c = "[]"
      and w = world0 and now = 0]
  have "pollUntilSuccess ?f timeKeeper True (0, [], world0) =
       (False, 3 * second, [0, second, 2 * second],
        NewLine (world0\<lparr>said := [''.'', ''.'', ''.'']\<rparr>))"
    unfolding c p r by simp
  with t c p show ?thesis
    by (simp add: NewLine_def Say_def world0_def)
qed

text \<open>
  Claim C3 as stated fails for a timeout of five seconds: the polling function never
  returns true and is invoked five times, at 0, 1, 2, 3 and 4 seconds, where the claim
  counts \<open>timeout div second + 1 = 6\<close>.
\<close>

theorem pollUntilSuccess_timeout_counterexample:
  "timeout factory0 = 5 * second
   \<and> (\<forall>t s. \<not> fst (instancesPoll factory0 ''app'' 1 t s))
   \<and> pollUntilSuccess factory0 (instancesPoll factory0 ''app'' 1) True (0, False, world0) =
       (False, 5 * second, False,
        world0\<lparr>infoQueries := 5, said := [''.'', ''.'', ''.'', ''.'', ''.'', ''\<newline>'']\<rparr>)
   \<and> pollUntilSuccess factory0 timeKeeper True (0, [], world0) =
       (False, 5 * second, [0, second, 2 * second, 3 * second, 4 * second],
        world0\<lparr>said := [''.'', ''.'', ''.'', ''.'', ''.'', ''\<newline>'']\<rparr>)
   \<and> nat (timeout factory0 div second) + 1 = 6"
  by (simp add: poll_eval timeKeeper_def pollLoop.simps split: prod.splits)

lemma pollLoop_placement:
  fixes f name instances
  defines "R \<equiv> RunningAppInstancesInfo (appRunner f) name"
  shows "\<forall>j<k. \<not> snd (R (infoQueries w + j)) \<and> fst (R (infoQueries w + j)) \<noteq> instances \<Longrightarrow>
     snd (R (infoQueries w + k)) \<Longrightarrow> int k * second < d - now \<Longrightarrow>
     pollLoop (instancesPoll f name instances) True d (now, flag, w) =
       (True, now + int k * second, True,
        w\<lparr>infoQueries := infoQueries w + k + 1,
          said := said w @ replicate k ''.'' @ [Red f placementErrorText, ''\<newline>'']\<rparr>)"
proof (induction k arbitrary: now flag w)
  case 0
  then have run: "d > now" by simp
  obtain cnt where "R (infoQueries w) = (cnt, True)"
    using 0(2) by (cases "R (infoQueries w)") auto
  then show ?case using run
    by (subst pollLoop.simps) (simp add: instancesPoll_def R_def Say_def NewLine_def)
next
  case (Suc k)
  from Suc.prems(3) have run: "d > now" by (simp add: second_def algebra_simps)
  from Suc.prems(1) have first: "\<not> snd (R (infoQueries w))" "fst (R (infoQueries w)) \<noteq> instances"
    by (metis add.right_neutral zero_less_Suc)+
  then obtain cnt where cnt: "R (infoQueries w) = (cnt, False)" "cnt \<noteq> instances"
    by (cases "R (infoQueries w)") auto
  let ?w1 = "Say ''.'' (w\<lparr>infoQueries := infoQueries w + 1\<rparr>)"
  have q: "infoQueries ?w1 = infoQueries w + 1" by (simp add: Say_def)
  have a: "\<forall>j<k. \<not> snd (R (infoQueries ?w1 + j)) \<and> fst (R (infoQueries ?w1 + j)) \<noteq> instances"
    using Suc.prems(1) unfolding q by (metis Suc_less_eq add_Suc_shift Suc_eq_plus1)
  have b: "snd (R (infoQueries ?w1 + k))"
    using Suc.prems(2) unfolding q by simp
  have c: "int k * second < d - (now + 1 * second)"
    using Suc.prems(3) by (simp add: algebra_simps)
  have "pollLoop (instancesPoll f name instances) True d (now, flag, w) =
        pollLoop (instancesPoll f name instances) True d (now + 1 * second, flag, ?w1)"
    using run cnt by (subst pollLoop.simps) (simp add: instancesPoll_def R_def)
  also note Suc.IH [OF a b c]
  finally show ?case
    by (simp add: Say_def algebra_simps replicate_append_same)
qed

text \<open>
  Claim C4. Let the cluster report a placement error on the poll numbered \<open>k\<close> of a
  convergence wait (counting from 0), a poll that takes place: it starts before the
  timeout, and no earlier poll reported a placement error or the requested number of
  instances. Then polling ends on that poll, with the poller's result true and the
  captured flag set; \<open>pollUntilAllInstancesRunning\<close> hands \<open>PlacementError\<close> to the exit
  handler and returns false; after an accepted scale request \<open>setAppInstances\<close> writes
  nothing after the error text, so no success message; and the end of \<open>createApp\<close>
  skips its success message and goes on from that same world.
\<close>

theorem placement_error_is_fatal:
  assumes before: "\<forall>j<k. \<not> snd (RunningAppInstancesInfo (appRunner factory) appName (infoQueries w + j))
        \<and> fst (RunningAppInstancesInfo (appRunner factory) appName (infoQueries w + j)) \<noteq> instances"
    and at: "snd (RunningAppInstancesInfo (appRunner factory) appName (infoQueries w + k))"
    and intime: "int k * second < timeout factory"
  shows "(let polled = (\<lambda>v. v\<lparr>infoQueries := infoQueries v + k + 1,
                               said := said v @ replicate k ''.''
                                        @ [Red factory placementErrorText, ''\<newline>'']\<rparr>);
              now' = now + int k * second
          in
            pollUntilSuccess factory (instancesPoll factory appName instances) True (now, False, w) =
              (True, now', True, polled w)
          \<and> pollUntilAllInstancesRunning factory appName instances action (now, w) =
              (False, now', (polled w)\<lparr>exits := exits w @ [PlacementError]\<rparr>)
          \<and> (ScaleApp (appRunner factory) appName instances = None \<longrightarrow>
               setAppInstances factory appName instances (now, w) =
                 (now', (polled (Say (''Scaling '' @ appName @ '' to '' @ Itoa instances
                                      @ '' instances \<newline>'') w))
                          \<lparr>scaled := scaled w @ [(appName, instances)],
                            exits := exits w @ [PlacementError]\<rparr>))
          \<and> createApp_wait factory appName instances routesFlag routeOverrides (now, w) =
              (let w' = (polled w)\<lparr>exits := exits w @ [PlacementError]\<rparr> in
               if routeOverrides \<noteq> [] then
                 (case sayRouteUrls factory (Split CHR '','' routesFlag) w' of
                    (out, w3) \<Rightarrow> (out, now', w3))
               else (Returned, now', Say (Green factory (urlForApp factory appName)) w')))"
proof -
  let ?polled = "\<lambda>v. v\<lparr>infoQueries := infoQueries v + k + 1,
                         said := said v @ replicate k ''.''
                                  @ [Red factory placementErrorText, ''\<newline>'']\<rparr>"
  have poll: "pollUntilSuccess factory (instancesPoll factory appName instances) True
                (now, False, v) = (True, now + int k * second, True, ?polled v)"
    if "infoQueries v = infoQueries w" for v
    unfolding pollUntilSuccess_def prod.case
    by (rule pollLoop_placement) (use that before at intime in simp_all)
  have all: "pollUntilAllInstancesRunning factory appName instances action (now, v) =
               (False, now + int k * second, (?polled v)\<lparr>exits := exits v @ [PlacementError]\<rparr>)"
    if "infoQueries v = infoQueries w" for v action
    by (simp add: pollUntilAllInstancesRunning_def poll [OF that] Exit_def)
  have scale: "setAppInstances factory appName instances (now, w) =
                 (now + int k * second,
                  (?polled (Say (''Scaling '' @ appName @ '' to '' @ Itoa instances
                                 @ '' instances \<newline>'') w))
                    \<lparr>scaled := scaled w @ [(appName, instances)],
                      exits := exits w @ [PlacementError]\<rparr>)"
    if "ScaleApp (appRunner factory) appName instances = None"
    unfolding setAppInstances_def prod.case Let_def that option.case
    by (subst all) (simp_all add: Say_def)
  have wait: "createApp_wait factory appName instances routesFlag routeOverrides (now, w) =
              (let w' = (?polled w)\<lparr>exits := exits w @ [PlacementError]\<rparr> in
               if routeOverrides \<noteq> [] then
                 (case sayRouteUrls factory (Split CHR '','' routesFlag) w' of
                    (out, w3) \<Rightarrow> (out, now + int k * second, w3))
               else (Returned, now + int k * second,
                     Say (Green factory (urlForApp factory appName)) w'))"
    by (simp add: createApp_wait_def all Let_def)
  from poll [of w] all [of w action] scale wait show ?thesis
    by (simp add: Let_def)
qed

text \<open>
  A scale to one instance on a cluster whose third answer reports the placement error:
  two dots, the error text, the exit code, and nothing after them.
\<close>

theorem placement_error_is_fatal_witness:
  "RunningAppInstancesInfo fullRunner ''app'' 0 = (0, False)
   \<and> RunningAppInstancesInfo fullRunner ''app'' 1 = (0, False)
   \<and> RunningAppInstancesInfo fullRunner ''app'' 2 = (0, True)
   \<and> 2 * second < timeout factory0
   \<and> ScaleApp fullRunner ''app'' 1 = None
   \<and> pollUntilAllInstancesRunning (factory0\<lparr>appRunner := fullRunner\<rparr>) ''app'' 1 ''scale''
         (0, world0) =
       (False, 2 * second,
        world0\<lparr>said := [''.'', ''.'', ''<red>'' @ placementErrorText, ''\<newline>''],
               infoQueries := 3, exits := [PlacementError]\<rparr>)
   \<and> setAppInstances (factory0\<lparr>appRunner := fullRunner\<rparr>) ''app'' 1 (0, world0) =
       (2 * second,
        world0\<lparr>said := [''Scaling app to 1 instances \<newline>'', ''.'', ''.'',
                        ''<red>'' @ placementErrorText, ''\<newline>''],
               scaled := [(''app'', 1)], infoQueries := 3, exits := [PlacementError]\<rparr>)"
proof -
  let ?f = "factory0\<lparr>appRunner := fullRunner\<rparr>"
  have before: "\<forall>j<2. \<not> snd (RunningAppInstancesInfo (appRunner ?f) ''app'' (infoQueries world0 + j))
        \<and> fst (RunningAppInstancesInfo (appRunner ?f) ''app'' (infoQueries world0 + j)) \<noteq> 1"
    by (simp add: factory0_def fullRunner_def idleRunner_def world0_def)
  have at: "snd (RunningAppInstancesInfo (appRunner ?f) ''app'' (infoQueries world0 + 2))"
    by (simp add: factory0_def fullRunner_def idleRunner_def world0_def)
  have intime: "int 2 * second < timeout ?f"
    by (simp add: factory0_def second_def)
  have sc: "ScaleApp fullRunner ''app'' 1 = None"
    by (simp add: fullRunner_def idleRunner_def)
  have answers: "RunningAppInstancesInfo fullRunner ''app'' 0 = (0, False)"
    "RunningAppInstancesInfo fullRunner ''app'' 1 = (0, False)"
    "RunningAppInstancesInfo fullRunner ''app'' 2 = (0, True)"
    by (simp_all add: fullRunner_def idleRunner_def)
  from placement_error_is_fatal [OF before at intime, where now = 0 and action = "''scale''"
      and routesFlag = "[]" and routeOverrides = "[]"]
    answers intime sc
  show ?thesis
    by (simp add: Let_def factory0_def world0_def Say_def Itoa_def numeral_2_eq_2 second_def)
qed

subsection \<open>The create command\<close>

lemma parseRoutes_ok_wellFormed:
  "parseRoutes segs acc = (ro, None) \<Longrightarrow> \<forall>seg \<in> set segs. seg \<noteq> [] \<longrightarrow> wellFormedRoute seg"
proof (induction segs arbitrary: acc)
  case Nil
  then show ?case by simp
next
  case (Cons seg segs)
  show ?case
  proof (cases "seg = []")
    case True
    with Cons show ?thesis by simp
  next
    case False
    with Cons.prems obtain n where n: "Atoi (Split CHR '':'' seg ! 0) = Some n"
      and len: "\<not> length (Split CHR '':'' seg) < 2"
      and rest: "parseRoutes segs (acc @ [\<lparr>HostnamePrefix = Split CHR '':'' seg ! 1,
                                            Port = word_of_int n\<rparr>]) = (ro, None)"
      by (auto simp: Let_def split: option.splits if_splits)
    from len have "CHR '':'' \<in> set seg"
      using Split_length_iff[of "CHR '':''" seg] by simp
    with n have "wellFormedRoute seg"
      by (simp add: wellFormedRoute_def leftPart_def Split_0)
    with Cons.IH[OF rest] show ?thesis by simp
  qed
qed

lemma sayRouteUrls_ok:
  "\<forall>seg \<in> set segs. CHR '':'' \<in> set seg \<Longrightarrow>
   sayRouteUrls f segs w =
     (Returned,
      w\<lparr>said := said w @ map (\<lambda>seg. Green f (urlForApp f (leftPart (afterFirstColon seg)))) segs\<rparr>)"
proof (induction segs arbitrary: w)
  case Nil
  then show ?case by simp
next
  case (Cons seg segs)
  then have colon: "CHR '':'' \<in> set seg" by simp
  then have len: "length (Split CHR '':'' seg) > 1"
    using Split_length_iff[of "CHR '':''" seg] by simp
  from colon have one: "Split CHR '':'' seg ! 1 = leftPart (afterFirstColon seg)"
    using Split_1[of "CHR '':''" seg] by (simp add: leftPart_def afterFirstColon_def)
  from Cons.prems have rest: "\<forall>seg \<in> set segs. CHR '':'' \<in> set seg" by simp
  show ?case
    using len one Cons.IH[OF rest] by (simp add: Let_def Say_def)
qed

lemmas create_eval =
  createApp_def createApp_wait_def context0_def factory0_def idleRunner_def webMetadata_def
  Get_def Say_def SayLine_def IncorrectUsage_def NewLine_def buildEnvironment_def
  pollUntilAllInstancesRunning_def pollUntilSuccess_def instancesPoll_def Exit_def second_def
  urlForApp_def Itoa_def pollLoop.simps

text \<open>
  Claim C5 holds for at most four positional arguments and fails on the code for five or
  more. With two arguments a CPU weight of 0 is reported as a usage error before anything
  is fetched. With the arguments \<open>app img -- cmd arg\<close> the same CPU weight is not
  checked: the switch takes its \<open>len(context.Args()) > 4\<close> case, the metadata is
  fetched and the application is created with CPU weight 0.
\<close>

theorem createApp_cpu_weight_unchecked:
  "createApp factory0 (context0\<lparr>cpu_weight := 0\<rparr>) (0, world0) =
     (Returned, 0, world0\<lparr>said := [''Incorrect Usage: Invalid CPU Weight'']\<rparr>)
   \<and> (case createApp factory0
             (context0\<lparr>cpu_weight := 0, Args := [''app'', ''img'', ''--'', ''cmd'', ''arg'']\<rparr>)
             (0, world0) of
        (out, now', w') \<Rightarrow>
          ''Incorrect Usage: Invalid CPU Weight'' \<notin> set (said w')
          \<and> fetched w' = [''img'']
          \<and> map CPUWeight (created w') = [0]
          \<and> map AppArgs (created w') = [[''arg'']])"
  by (simp add: create_eval port_eval parseRouteOverrides_def)

text \<open>
  Claim C9, as the code has it. Let the route flag have parsed without error, and let it
  have no empty segment if it gave any override. From the convergence poll on,
  \<open>createApp\<close> returns having written, after what the poll wrote: the line saying the
  application is now running exactly when the poll succeeded; and then, whether the poll
  succeeded or not, the URLs: one per route override, made from its hostname prefix, in
  order, or the one made from the application name when there is no override.
\<close>

theorem createApp_wait_urls:
  assumes parsed: "parseRouteOverrides routesFlag = (routeOverrides, None)"
    and segs: "routeOverrides \<noteq> [] \<Longrightarrow> [] \<notin> set (Split CHR '','' routesFlag)"
    and poll: "pollUntilAllInstancesRunning factory name instancesFlag ''start'' s = (ok, now', w')"
  shows "createApp_wait factory name instancesFlag routesFlag routeOverrides s =
     (Returned, now',
      w'\<lparr>said := said w'
           @ (if ok then [Green factory (name @ '' is now running.\<newline>'')] else [])
           @ (if routeOverrides = [] then [Green factory (urlForApp factory name)]
              else map (\<lambda>r. Green factory (urlForApp factory (HostnamePrefix r)))
                     routeOverrides)\<rparr>)"
proof (cases "routeOverrides = []")
  case True
  then show ?thesis
    by (simp add: createApp_wait_def poll Say_def)
next
  case False
  let ?segs = "Split CHR '','' routesFlag"
  from parsed have p: "parseRoutes ?segs [] = (routeOverrides, None)"
    by (simp add: parseRouteOverrides_def)
  have wf: "\<forall>seg \<in> set ?segs. seg \<noteq> [] \<longrightarrow> wellFormedRoute seg"
    by (rule parseRoutes_ok_wellFormed [OF p])
  from segs [OF False] have ne: "\<forall>seg \<in> set ?segs. seg \<noteq> []" by auto
  then have filt: "filter (\<lambda>seg. seg \<noteq> []) ?segs = ?segs" by simp
  from wf ne have colon: "\<forall>seg \<in> set ?segs. CHR '':'' \<in> set seg"
    by (simp add: wellFormedRoute_def)
  from parseRoutes_wellFormed [OF wf, of "[]"] p
  have ro: "routeOverrides =
      map (\<lambda>seg. \<lparr>HostnamePrefix = leftPart (afterFirstColon seg),
                    Port = word_of_int (the (Atoi (leftPart seg)))\<rparr>) ?segs"
    unfolding filt by simp
  have urls: "map (\<lambda>r. Green factory (urlForApp factory (HostnamePrefix r))) routeOverrides =
      map (\<lambda>seg. Green factory (urlForApp factory (leftPart (afterFirstColon seg)))) ?segs"
    by (subst ro) (simp add: comp_def)
  show ?thesis
    using False
    by (simp add: createApp_wait_def poll sayRouteUrls_ok [OF colon] urls Say_def)
qed

text \<open>
  Two overrides and a poll that succeeds at once (no instance is asked for): the
  success line, then the URL of each override.
\<close>

theorem createApp_wait_urls_witness:
  "parseRouteOverrides ''80:web,8080:api'' =
     ([\<lparr>HostnamePrefix = ''web'', Port = 80\<rparr>, \<lparr>HostnamePrefix = ''api'', Port = 8080\<rparr>], None)
   \<and> [] \<notin> set (Split CHR '','' ''80:web,8080:api'')
   \<and> pollUntilAllInstancesRunning factory0 ''app'' 0 ''start'' (0, world0) =
       (True, 0, world0\<lparr>said := [''\<newline>''], infoQueries := 1\<rparr>)
   \<and> createApp_wait factory0 ''app'' 0 ''80:web,8080:api''
        [\<lparr>HostnamePrefix = ''web'', Port = 80\<rparr>, \<lparr>HostnamePrefix = ''api'', Port = 8080\<rparr>]
        (0, world0) =
       (Returned, 0,
        world0\<lparr>said := [''\<newline>'', ''<green>app is now running.\<newline>'',
                        ''<green>http://web.example.com\<newline>'',
                        ''<green>http://api.example.com\<newline>''],
               infoQueries := 1\<rparr>)"
proof -
  have parsed: "parseRouteOverrides ''80:web,8080:api'' =
     ([\<lparr>HostnamePrefix = ''web'', Port = 80\<rparr>, \<lparr>HostnamePrefix = ''api'', Port = 8080\<rparr>], None)"
    by (simp add: route_eval)
  have segs: "[] \<notin> set (Split CHR '','' ''80:web,8080:api'')" by simp
  have poll: "pollUntilAllInstancesRunning factory0 ''app'' 0 ''start'' (0, world0) =
       (True, 0, world0\<lparr>said := [''\<newline>''], infoQueries := 1\<rparr>)"
    by (simp add: pollUntilAllInstancesRunning_def poll_eval pollLoop.simps)
  from createApp_wait_urls [OF parsed segs poll] parsed segs poll
  show ?thesis
    by (simp add: factory0_def urlForApp_def world0_def)
qed

text \<open>
  Claim C9 as stated fails: a create whose poll times out (the cluster never reports
  the instance as running) writes no success line, yet it writes the URL after the
  message that the application took too long to start.
\<close>

theorem createApp_wait_urls_counterexample:
  "(case createApp factory0 context0 (0, world0) of
      (out, now', w') \<Rightarrow>
        out = Returned \<and> now' = 5 * second
        \<and> map AppName (created w') = [''app'']
        \<and> ''<green>app is now running.\<newline>'' \<notin> set (said w')
        \<and> drop 8 (said w') =
            [''Creating App: app\<newline>'', ''.'', ''.'', ''.'', ''.'', ''.'', ''\<newline>'',
             ''<red>app took too long to start.\<newline>'',
             ''<green>http://app.example.com\<newline>''])"
  by (simp add: create_eval port_eval parseRouteOverrides_def)

end
